theory Spec2Isabelle
  imports Complex_Main
begin

section \<open>CSV Ball-Stick Graph: a model of DataVisualizer.py\<close>

text \<open>
  The add-on reads a CSV file into a data frame, normalises two named columns by min-max,
  adds one UV sphere per row and one cylinder per pair of consecutive rows to the scene.

  Conventions of the model:
  \<^item> Python floats are modelled as \<^typ>\<open>real\<close>: arithmetic is exact, there is no
    rounding, no overflow and no NaN cell. The one NaN the code can meet without a NaN
    cell, the minimum of an empty column, is the value \<open>None\<close> of \<open>series_min\<close>.
  \<^item> The scene is the list of objects in creation order; an operator of \<open>bpy.ops.mesh\<close>
    appends the new object, which is then the active object.
  \<^item> What the host and the libraries decide is a field of the record \<open>host\<close>: the result
    of \<open>pandas.read_csv\<close> on a path, the result of \<open>float\<close> on a text cell, and whether
    the node tree of a new material has a node named "Principled BSDF".
  \<^item> An exception is a value of \<open>exn\<close>; a function that can raise returns \<open>exn + 'a\<close>
    together with the scene as it is at that moment.
\<close>

subsection \<open>Vectors and colours\<close>

type_synonym vec = "real \<times> real \<times> real"

type_synonym rgba = "real \<times> real \<times> real \<times> real"

fun vec_sub :: "vec \<Rightarrow> vec \<Rightarrow> vec" where
  "vec_sub (a1, a2, a3) (b1, b2, b3) = (a1 - b1, a2 - b2, a3 - b3)"

fun vec_add :: "vec \<Rightarrow> vec \<Rightarrow> vec" where
  "vec_add (a1, a2, a3) (b1, b2, b3) = (a1 + b1, a2 + b2, a3 + b3)"

fun vec_div :: "vec \<Rightarrow> real \<Rightarrow> vec" where
  "vec_div (a1, a2, a3) k = (a1 / k, a2 / k, a3 / k)"

text \<open>\<open>Vector.length\<close>: the Euclidean norm.\<close>

fun vec_length :: "vec \<Rightarrow> real" where
  "vec_length (a1, a2, a3) = sqrt (a1 * a1 + a2 * a2 + a3 * a3)"

fun vx :: "vec \<Rightarrow> real" where "vx (a1, a2, a3) = a1"
fun vy :: "vec \<Rightarrow> real" where "vy (a1, a2, a3) = a2"

fun red :: "rgba \<Rightarrow> real" where "red (r, g, b, a) = r"
fun green :: "rgba \<Rightarrow> real" where "green (r, g, b, a) = g"

subsection \<open>Exceptions\<close>

datatype exn =
    ReadError string      \<comment> \<open>raised by \<open>pandas.read_csv\<close>, with its message\<close>
  | KeyError string       \<comment> \<open>\<open>df[c]\<close> for a column label that is absent\<close>
  | ValueError string     \<comment> \<open>\<open>astype(float)\<close> on a text cell that is no number\<close>
  | ZeroDivisionError     \<comment> \<open>\<open>i / len(df)\<close> with \<open>len(df) = 0\<close>\<close>

text \<open>\<open>str(e)\<close>, as the f-strings of the two operators format it.\<close>

fun exn_str :: "exn \<Rightarrow> string" where
  "exn_str (ReadError m) = m"
| "exn_str (KeyError k) = [CHR 0x27] @ k @ [CHR 0x27]"
| "exn_str (ValueError s) =
     ''could not convert string to float: '' @ [CHR 0x27] @ s @ [CHR 0x27]"
| "exn_str ZeroDivisionError = ''division by zero''"

subsection \<open>Data frames\<close>

datatype cell = Num real | Text string

text \<open>
  A frame has its column labels and its rows; a row gives the cell of every label. So all
  columns have the same length, \<open>len(df)\<close>, by construction.
\<close>

record dataframe =
  columns :: "string list"
  rows :: "(string \<Rightarrow> cell) list"

definition len :: "dataframe \<Rightarrow> nat" where
  "len df = length (rows df)"

text \<open>\<open>df[c]\<close>\<close>

definition getitem :: "dataframe \<Rightarrow> string \<Rightarrow> exn + cell list" where
  "getitem df c =
     (if c \<in> set (columns df) then Inr (map (\<lambda>r. r c) (rows df)) else Inl (KeyError c))"

subsection \<open>The host\<close>

record host =
  read_csv :: "string \<Rightarrow> exn + dataframe"
  float_of_text :: "string \<Rightarrow> real option"
  principled_bsdf :: bool

text \<open>\<open>Series.astype(float)\<close>: cell by cell, raising at the first cell that is no number.\<close>

fun to_float :: "host \<Rightarrow> cell \<Rightarrow> exn + real" where
  "to_float h (Num v) = Inr v"
| "to_float h (Text s) =
     (case float_of_text h s of Some v \<Rightarrow> Inr v | None \<Rightarrow> Inl (ValueError s))"

fun astype_float :: "host \<Rightarrow> cell list \<Rightarrow> exn + real list" where
  "astype_float h [] = Inr []"
| "astype_float h (c # cs) =
     (case to_float h c of
        Inl e \<Rightarrow> Inl e
      | Inr v \<Rightarrow> (case astype_float h cs of Inl e \<Rightarrow> Inl e | Inr vs \<Rightarrow> Inr (v # vs)))"

text \<open>\<open>df[c].astype(float)\<close>, lines 52 and 53.\<close>

definition column_floats :: "host \<Rightarrow> dataframe \<Rightarrow> string \<Rightarrow> exn + real list" where
  "column_floats h df c =
     (case getitem df c of Inl e \<Rightarrow> Inl e | Inr cs \<Rightarrow> astype_float h cs)"

text \<open>\<open>Series.min()\<close> and \<open>Series.max()\<close>; \<open>None\<close> is the NaN of an empty series.\<close>

fun series_min :: "real list \<Rightarrow> real option" where
  "series_min [] = None"
| "series_min (x # xs) = Some (fold min xs x)"

fun series_max :: "real list \<Rightarrow> real option" where
  "series_max [] = None"
| "series_max (x # xs) = Some (fold max xs x)"

subsection \<open>Materials and objects\<close>

record material =
  mat_name :: string
  use_nodes :: bool
  base_color :: "rgba option"

text \<open>
  \<open>create_material\<close>: the colour is stored only when the node is found; \<open>None\<close> is a
  material whose colour the add-on never set.
\<close>

definition create_material :: "host \<Rightarrow> rgba \<Rightarrow> material" where
  "create_material h color =
     (let mat = \<lparr>mat_name = ''Mat'', use_nodes = True, base_color = None\<rparr>
      in if principled_bsdf h then mat\<lparr>base_color := Some color\<rparr> else mat)"

datatype mesh = UVSphere real | Cylinder real real

text \<open>
  \<open>direction.to_track_quat('Z', 'Y')\<close> is kept as the request it is: the rotation that
  points the named local axis along the direction, with the named up axis.
\<close>

datatype quat = Identity | ToTrackQuat vec string string

record obj =
  mesh :: mesh
  location :: vec
  name :: string
  materials :: "material list"
  rotation_mode :: string
  rotation_quaternion :: quat

type_synonym scene = "obj list"

definition primitive_uv_sphere_add :: "real \<Rightarrow> vec \<Rightarrow> obj" where
  "primitive_uv_sphere_add radius loc =
     \<lparr>mesh = UVSphere radius, location = loc, name = ''Sphere'', materials = [],
      rotation_mode = ''XYZ'', rotation_quaternion = Identity\<rparr>"

definition primitive_cylinder_add :: "real \<Rightarrow> real \<Rightarrow> vec \<Rightarrow> obj" where
  "primitive_cylinder_add radius depth loc =
     \<lparr>mesh = Cylinder radius depth, location = loc, name = ''Cylinder'', materials = [],
      rotation_mode = ''XYZ'', rotation_quaternion = Identity\<rparr>"

definition sphere_obj :: "host \<Rightarrow> vec \<Rightarrow> real \<Rightarrow> string \<Rightarrow> rgba \<Rightarrow> obj" where
  "sphere_obj h loc radius nm color =
     (let ob = primitive_uv_sphere_add radius loc;
          ob = ob\<lparr>name := nm\<rparr>
      in ob\<lparr>materials := materials ob @ [create_material h color]\<rparr>)"

definition add_sphere :: "host \<Rightarrow> vec \<Rightarrow> real \<Rightarrow> string \<Rightarrow> rgba \<Rightarrow> scene \<Rightarrow> scene" where
  "add_sphere h loc radius nm color sc = sc @ [sphere_obj h loc radius nm color]"

definition cylinder_obj :: "host \<Rightarrow> vec \<Rightarrow> vec \<Rightarrow> real \<Rightarrow> string \<Rightarrow> rgba \<Rightarrow> obj" where
  "cylinder_obj h p1 p2 radius nm color =
     (let start = p1;
          end = p2;
          direction = vec_sub end start;
          length = vec_length direction;
          location = vec_add start (vec_div direction 2);
          ob = primitive_cylinder_add radius length location;
          ob = ob\<lparr>name := nm\<rparr>;
          ob = ob\<lparr>materials := materials ob @ [create_material h color]\<rparr>;
          ob = ob\<lparr>rotation_mode := ''QUATERNION''\<rparr>
      in ob\<lparr>rotation_quaternion := ToTrackQuat direction ''Z'' ''Y''\<rparr>)"

definition add_cylinder_between ::
  "host \<Rightarrow> vec \<Rightarrow> vec \<Rightarrow> real \<Rightarrow> string \<Rightarrow> rgba \<Rightarrow> scene \<Rightarrow> scene" where
  "add_cylinder_between h p1 p2 radius nm color sc = sc @ [cylinder_obj h p1 p2 radius nm color]"

subsection \<open>Decimal numerals of the object names\<close>

definition digit_char :: "nat \<Rightarrow> char" where
  "digit_char d = ''0123456789'' ! d"

function str_nat :: "nat \<Rightarrow> string" where
  "str_nat n = (if n < 10 then [digit_char n] else str_nat (n div 10) @ [digit_char (n mod 10)])"
  by pat_completeness auto
termination
  by (relation "measure id") auto

declare str_nat.simps [simp del]

subsection \<open>The layout\<close>

text \<open>
  Line 58: \<open>(x_vals - x_min) / (x_max - x_min) if x_max != x_min else x_vals\<close>. On an empty
  series both bounds are NaN, \<open>NaN != NaN\<close> holds and the elementwise quotient of the
  empty series is the empty series.
\<close>

definition norm_column :: "real list \<Rightarrow> real list" where
  "norm_column vals =
     (case (series_min vals, series_max vals) of
        (Some lo, Some hi) \<Rightarrow>
          if hi \<noteq> lo then map (\<lambda>v. (v - lo) / (hi - lo)) vals else vals
      | _ \<Rightarrow> [])"

text \<open>\<open>(i / len(df), 1 - i / len(df), 0.8, 1)\<close>, the division raising on a zero divisor.\<close>

definition ball_color :: "nat \<Rightarrow> nat \<Rightarrow> exn + rgba" where
  "ball_color i n =
     (if n = 0 then Inl ZeroDivisionError
      else Inr (real i / real n, 1 - real i / real n, 0.8, 1))"

text \<open>
  The first loop, lines 62 to 66, from index \<open>i\<close> on: the position is appended to \<open>points\<close>
  before the colour is computed, the sphere is added after it.
\<close>

fun ball_loop ::
  "host \<Rightarrow> nat \<Rightarrow> real \<Rightarrow> real \<Rightarrow> nat \<Rightarrow> (real \<times> real) list \<Rightarrow> vec list \<Rightarrow> scene
     \<Rightarrow> (exn + vec list) \<times> scene" where
  "ball_loop h n spacing ball_radius i [] points sc = (Inr points, sc)"
| "ball_loop h n spacing ball_radius i ((x, y) # rest) points sc =
     (let pos = (x * spacing, y * spacing, 0);
          points = points @ [pos]
      in case ball_color i n of
           Inl e \<Rightarrow> (Inl e, sc)
         | Inr color \<Rightarrow>
             ball_loop h n spacing ball_radius (Suc i) rest points
               (add_sphere h pos ball_radius (''Ball_'' @ str_nat i) color sc))"

text \<open>
  The second loop, lines 68 and 69. \<open>range(len(points) - 1)\<close> is empty for no point as
  for one point, as the truncated subtraction gives it.
\<close>

definition stick_loop :: "host \<Rightarrow> vec list \<Rightarrow> real \<Rightarrow> scene \<Rightarrow> scene" where
  "stick_loop h points stick_radius sc =
     fold (\<lambda>i. add_cylinder_between h (points ! i) (points ! (i + 1)) stick_radius
                  (''Stick_'' @ str_nat i) (0.8, 0.8, 0.8, 1))
       [0 ..< length points - 1] sc"

definition create_ball_stick_model ::
  "host \<Rightarrow> dataframe \<Rightarrow> string \<Rightarrow> string \<Rightarrow> real \<Rightarrow> real \<Rightarrow> real \<Rightarrow> scene
     \<Rightarrow> (exn + unit) \<times> scene" where
  "create_ball_stick_model h df x_col y_col spacing ball_radius stick_radius sc =
     (case column_floats h df x_col of
        Inl e \<Rightarrow> (Inl e, sc)
      | Inr x_vals \<Rightarrow>
          (case column_floats h df y_col of
             Inl e \<Rightarrow> (Inl e, sc)
           | Inr y_vals \<Rightarrow>
               (let norm_x = norm_column x_vals;
                    norm_y = norm_column y_vals
                in (case ball_loop h (len df) spacing ball_radius 0 (zip norm_x norm_y) [] sc of
                      (Inl e, sc1) \<Rightarrow> (Inl e, sc1)
                    | (Inr points, sc1) \<Rightarrow> (Inr (), stick_loop h points stick_radius sc1)))))"

subsection \<open>Properties and operators\<close>

record props =
  filepath :: string
  x_column :: string
  y_column :: string
  spacing :: real
  ball_radius :: real
  stick_radius :: real
  file_loaded :: bool
  error_message :: string

datatype status = FINISHED | CANCELLED

datatype level = INFO | ERROR

type_synonym report = "level \<times> string"

text \<open>
  \<open>CSV_OT_LoadFile.execute\<close>; \<open>self_filepath\<close> is the path the file browser stored in the
  operator. The result is the returned status and the properties as the operator
  leaves them.
\<close>

definition load_execute :: "host \<Rightarrow> string \<Rightarrow> props \<Rightarrow> status \<times> props" where
  "load_execute h self_filepath p =
     (case read_csv h self_filepath of
        Inr df \<Rightarrow>
          (FINISHED, p\<lparr>filepath := self_filepath, file_loaded := True, error_message := ''''\<rparr>)
      | Inl e \<Rightarrow>
          (FINISHED, p\<lparr>file_loaded := False,
                        error_message := ''Error reading CSV: '' @ exn_str e\<rparr>))"

text \<open>
  \<open>CSV_OT_VisualizeGraph.execute\<close>: the returned status, the reports made, and the scene
  as the operator leaves it.
\<close>

definition visualize_execute :: "host \<Rightarrow> props \<Rightarrow> scene \<Rightarrow> (status \<times> report list) \<times> scene" where
  "visualize_execute h p sc =
     (case read_csv h (filepath p) of
        Inl e \<Rightarrow> ((CANCELLED, [(ERROR, ''Failed to visualize: '' @ exn_str e)]), sc)
      | Inr df \<Rightarrow>
          if x_column p \<notin> set (columns df) \<or> y_column p \<notin> set (columns df)
          then ((CANCELLED,
                 [(ERROR, ''Column '' @ [CHR 0x27] @ x_column p @ [CHR 0x27] @ '' or ''
                            @ [CHR 0x27] @ y_column p @ [CHR 0x27] @ '' not found in CSV.'')]), sc)
          else
            (case create_ball_stick_model h df (x_column p) (y_column p) (spacing p)
                    (ball_radius p) (stick_radius p) sc of
               (Inr u, sc1) \<Rightarrow> ((FINISHED, [(INFO, ''Graph created.'')]), sc1)
             | (Inl e, sc1) \<Rightarrow>
                 ((CANCELLED, [(ERROR, ''Failed to visualize: '' @ exn_str e)]), sc1)))"

subsection \<open>Reading the result\<close>

text \<open>
  The objects a call has added to the scene, and among them the spheres (the placements
  of the specification) and the cylinders (its connectors), in creation order.
\<close>

definition created :: "scene \<Rightarrow> 'a \<times> scene \<Rightarrow> obj list" where
  "created sc res = drop (length sc) (snd res)"

fun is_sphere :: "obj \<Rightarrow> bool" where
  "is_sphere ob = (case mesh ob of UVSphere r \<Rightarrow> True | Cylinder r d \<Rightarrow> False)"

fun is_cylinder :: "obj \<Rightarrow> bool" where
  "is_cylinder ob = (case mesh ob of UVSphere r \<Rightarrow> False | Cylinder r d \<Rightarrow> True)"

definition placements :: "obj list \<Rightarrow> obj list" where
  "placements obs = filter is_sphere obs"

definition connectors :: "obj list \<Rightarrow> obj list" where
  "connectors obs = filter is_cylinder obs"

text \<open>The sphere of row \<open>i\<close> of \<open>n\<close>, for the normalised pair \<open>p\<close>, and the \<open>i\<close>-th stick.\<close>

definition ball_of :: "host \<Rightarrow> nat \<Rightarrow> real \<Rightarrow> real \<Rightarrow> nat \<Rightarrow> real \<times> real \<Rightarrow> obj" where
  "ball_of h n sp r i p =
     sphere_obj h (fst p * sp, snd p * sp, 0) r (''Ball_'' @ str_nat i)
       (real i / real n, 1 - real i / real n, 0.8, 1)"

definition stick_of :: "host \<Rightarrow> vec list \<Rightarrow> real \<Rightarrow> nat \<Rightarrow> obj" where
  "stick_of h points r i =
     cylinder_obj h (points ! i) (points ! (i + 1)) r (''Stick_'' @ str_nat i) (0.8, 0.8, 0.8, 1)"

definition points_of :: "real \<Rightarrow> real list \<Rightarrow> real list \<Rightarrow> vec list" where
  "points_of sp xs ys =
     map (\<lambda>p. (fst p * sp, snd p * sp, 0)) (zip (norm_column xs) (norm_column ys))"

text \<open>A frame with the columns \<open>x\<close> and \<open>y\<close>, one row per numeric sample.\<close>

definition frame_of_samples :: "(real \<times> real) list \<Rightarrow> dataframe" where
  "frame_of_samples samples =
     \<lparr>columns = [''x'', ''y''],
      rows = map (\<lambda>(a, b) c. if c = ''x'' then Num a else Num b) samples\<rparr>"

text \<open>A frame with the same two columns whose cells may be text.\<close>

definition frame_of_cells :: "(cell \<times> cell) list \<Rightarrow> dataframe" where
  "frame_of_cells cs =
     \<lparr>columns = [''x'', ''y''],
      rows = map (\<lambda>(a, b) c. if c = ''x'' then a else b) cs\<rparr>"

text \<open>
  A host for the examples: the file \<open>data.csv\<close> holds the three samples of the
  specification's scenario, \<open>bad.csv\<close> holds a text cell, every other path cannot be
  read; no text is a number; a new material has the Principled BSDF node.
\<close>

definition example_host :: host where
  "example_host =
     \<lparr>read_csv = (\<lambda>path.
        if path = ''data.csv'' then Inr (frame_of_samples [(0, 0), (10, 0), (10, 10)])
        else if path = ''bad.csv'' then Inr (frame_of_cells [(Num 1, Num 2), (Text ''abc'', Num 3)])
        else Inl (ReadError ''No such file or directory'')),
      float_of_text = (\<lambda>s. None),
      principled_bsdf = True\<rparr>"

definition example_props :: "string \<Rightarrow> props" where
  "example_props path =
     \<lparr>filepath = path, x_column = ''x'', y_column = ''y'', spacing = 5, ball_radius = 0.2,
      stick_radius = 0.05, file_loaded = True, error_message = []\<rparr>"

section \<open>Properties\<close>

subsection \<open>Auxiliary facts\<close>

lemma series_min_Min: "xs \<noteq> [] \<Longrightarrow> series_min xs = Some (Min (set xs))"
  by (cases xs) (simp_all add: Min.set_eq_fold [symmetric])

lemma series_max_Max: "xs \<noteq> [] \<Longrightarrow> series_max xs = Some (Max (set xs))"
  by (cases xs) (simp_all add: Max.set_eq_fold [symmetric])

lemma length_norm_column: "length (norm_column xs) = length xs"
  by (cases xs) (simp_all add: norm_column_def)

lemma norm_column_const: "xs \<noteq> [] \<Longrightarrow> Max (set xs) = Min (set xs) \<Longrightarrow> norm_column xs = xs"
  by (simp add: norm_column_def series_min_Min series_max_Max)


lemma astype_float_length: "astype_float h cs = Inr vs \<Longrightarrow> length vs = length cs"
  by (induction cs arbitrary: vs) (auto split: sum.splits)

lemma column_floats_length: "column_floats h df c = Inr vs \<Longrightarrow> length vs = len df"
  by (auto simp: column_floats_def getitem_def len_def split: sum.splits if_splits
      dest: astype_float_length)

lemma ball_loop_eq:
  "0 < n \<Longrightarrow> ball_loop h n sp r i ps points sc =
     (Inr (points @ map (\<lambda>p. (fst p * sp, snd p * sp, 0)) ps),
      sc @ map (\<lambda>k. ball_of h n sp r (i + k) (ps ! k)) [0..<length ps])"
proof (induction ps arbitrary: i points sc)
  case Nil
  then show ?case by simp
next
  case (Cons p ps)
  obtain x y where p: "p = (x, y)" by (cases p)
  have "ball_loop h n sp r i (p # ps) points sc =
      ball_loop h n sp r (Suc i) ps (points @ [(fst p * sp, snd p * sp, 0)])
        (sc @ [ball_of h n sp r i p])"
    using Cons.prems by (simp add: p ball_color_def add_sphere_def ball_of_def Let_def)
  also have "\<dots> =
      (Inr ((points @ [(fst p * sp, snd p * sp, 0)]) @ map (\<lambda>p. (fst p * sp, snd p * sp, 0)) ps),
       (sc @ [ball_of h n sp r i p]) @
         map (\<lambda>k. ball_of h n sp r (Suc i + k) (ps ! k)) [0..<length ps])"
    by (rule Cons.IH [OF Cons.prems])
  also have "\<dots> =
      (Inr (points @ map (\<lambda>p. (fst p * sp, snd p * sp, 0)) (p # ps)),
       sc @ map (\<lambda>k. ball_of h n sp r (i + k) ((p # ps) ! k)) [0..<length (p # ps)])"
    by (simp add: map_upt_Suc del: upt_Suc)
  finally show ?case .
qed

lemma fold_snoc: "fold (\<lambda>i s. s @ [f i]) js sc = sc @ map f js"
  by (induction js arbitrary: sc) simp_all

lemma stick_loop_eq:
  "stick_loop h points r sc = sc @ map (stick_of h points r) [0..<length points - 1]"
  unfolding stick_loop_def add_cylinder_between_def stick_of_def by (rule fold_snoc)

text \<open>
  When both columns convert, the call succeeds and appends the spheres of all rows, in
  row order, and then the sticks of all consecutive pairs, in order.
\<close>

lemma model_eq:
  assumes x: "column_floats h df xc = Inr xs" and y: "column_floats h df yc = Inr ys"
  shows "create_ball_stick_model h df xc yc sp br sr sc =
     (Inr (),
      sc @ map (\<lambda>k. ball_of h (len df) sp br k (zip (norm_column xs) (norm_column ys) ! k))
             [0..<len df]
         @ map (stick_of h (points_of sp xs ys) sr) [0..<len df - 1])"
proof -
  have lx: "length xs = len df" and ly: "length ys = len df"
    using x y by (simp_all add: column_floats_length)
  show ?thesis
  proof (cases "len df = 0")
    case True
    then have "xs = []" "ys = []" using lx ly by simp_all
    then show ?thesis
      using True by (simp add: create_ball_stick_model_def x y norm_column_def stick_loop_eq)
  next
    case False
    then have n: "0 < len df" by simp
    show ?thesis
      by (simp add: create_ball_stick_model_def x y ball_loop_eq [OF n] stick_loop_eq
          points_of_def Let_def length_norm_column lx ly)
  qed
qed

lemma filter_map_all: "(\<And>k. P (f k)) \<Longrightarrow> filter P (map f ks) = map f ks"
  by (induction ks) simp_all

lemma filter_map_none: "(\<And>k. \<not> P (f k)) \<Longrightarrow> filter P (map f ks) = []"
  by (induction ks) simp_all

lemma ball_of_fields:
  "mesh (ball_of h n sp r i p) = UVSphere r"
  "location (ball_of h n sp r i p) = (fst p * sp, snd p * sp, 0)"
  "name (ball_of h n sp r i p) = ''Ball_'' @ str_nat i"
  "materials (ball_of h n sp r i p) =
     [create_material h (real i / real n, 1 - real i / real n, 0.8, 1)]"
  by (simp_all add: ball_of_def sphere_obj_def primitive_uv_sphere_add_def Let_def)

lemma stick_of_fields:
  "mesh (stick_of h ps r i) = Cylinder r (vec_length (vec_sub (ps ! (i + 1)) (ps ! i)))"
  "location (stick_of h ps r i) = vec_add (ps ! i) (vec_div (vec_sub (ps ! (i + 1)) (ps ! i)) 2)"
  "name (stick_of h ps r i) = ''Stick_'' @ str_nat i"
  "materials (stick_of h ps r i) = [create_material h (0.8, 0.8, 0.8, 1)]"
  "rotation_mode (stick_of h ps r i) = ''QUATERNION''"
  "rotation_quaternion (stick_of h ps r i) =
     ToTrackQuat (vec_sub (ps ! (i + 1)) (ps ! i)) ''Z'' ''Y''"
  by (simp_all add: stick_of_def cylinder_obj_def primitive_cylinder_add_def Let_def)

lemma created_eq:
  assumes "column_floats h df xc = Inr xs" and "column_floats h df yc = Inr ys"
  shows "created sc (create_ball_stick_model h df xc yc sp br sr sc) =
     map (\<lambda>k. ball_of h (len df) sp br k (zip (norm_column xs) (norm_column ys) ! k)) [0..<len df]
       @ map (stick_of h (points_of sp xs ys) sr) [0..<len df - 1]"
  by (simp add: created_def model_eq [OF assms])

lemma placements_eq:
  assumes "column_floats h df xc = Inr xs" and "column_floats h df yc = Inr ys"
  shows "placements (created sc (create_ball_stick_model h df xc yc sp br sr sc)) =
     map (\<lambda>k. ball_of h (len df) sp br k (zip (norm_column xs) (norm_column ys) ! k)) [0..<len df]"
  by (simp add: created_eq [OF assms] placements_def filter_map_all filter_map_none
      ball_of_fields stick_of_fields)

lemma connectors_eq:
  assumes "column_floats h df xc = Inr xs" and "column_floats h df yc = Inr ys"
  shows "connectors (created sc (create_ball_stick_model h df xc yc sp br sr sc)) =
     map (stick_of h (points_of sp xs ys) sr) [0..<len df - 1]"
  by (simp add: created_eq [OF assms] connectors_def filter_map_all filter_map_none
      ball_of_fields stick_of_fields)

lemma points_of_nth:
  "i < length xs \<Longrightarrow> length ys = length xs \<Longrightarrow>
     points_of sp xs ys ! i = (norm_column xs ! i * sp, norm_column ys ! i * sp, 0)"
  by (simp add: points_of_def length_norm_column)

lemma placement_nth:
  assumes x: "column_floats h df xc = Inr xs" and y: "column_floats h df yc = Inr ys"
    and i: "i < len df"
  shows "placements (created sc (create_ball_stick_model h df xc yc sp br sr sc)) ! i =
     ball_of h (len df) sp br i (norm_column xs ! i, norm_column ys ! i)"
  using i column_floats_length [OF x] column_floats_length [OF y]
  by (simp add: placements_eq [OF x y] length_norm_column)

lemma connector_nth:
  assumes x: "column_floats h df xc = Inr xs" and y: "column_floats h df yc = Inr ys"
    and i: "i + 1 < len df"
  shows "connectors (created sc (create_ball_stick_model h df xc yc sp br sr sc)) ! i =
     stick_of h (points_of sp xs ys) sr i"
  using i by (simp add: connectors_eq [OF x y])


lemma scenario_columns:
  "column_floats h (frame_of_samples [(0, 0), (10, 0), (10, 10)]) ''x'' = Inr [0, 10, 10]"
  "column_floats h (frame_of_samples [(0, 0), (10, 0), (10, 10)]) ''y'' = Inr [0, 0, 10]"
  by (simp_all add: column_floats_def getitem_def frame_of_samples_def)


lemma scenario_len: "len (frame_of_samples [(0, 0), (10, 0), (10, 10)]) = 3"
  by (simp add: len_def frame_of_samples_def)





text \<open>
  C2: when both columns convert, the call succeeds and adds exactly one sphere per row
  and \<open>max(0, len(df) - 1)\<close> cylinders; the spheres come first, in row order (sphere
  \<open>i\<close> is named \<open>Ball_i\<close> and stands at the position of row \<open>i\<close>), then the cylinders,
  in order (cylinder \<open>i\<close> is named \<open>Stick_i\<close> and joins spheres \<open>i\<close> and \<open>i + 1\<close>).
\<close>

theorem one_sphere_per_row_one_stick_per_pair:
  assumes x: "column_floats h df xc = Inr xs" and y: "column_floats h df yc = Inr ys"
  shows
    "(let res = create_ball_stick_model h df xc yc sp br sr sc;
          P = placements (created sc res);
          C = connectors (created sc res)
      in fst res = Inr () \<and>
         snd res = sc @ P @ C \<and>
         length P = len df \<and>
         int (length C) = max 0 (int (len df) - 1) \<and>
         (\<forall>i<len df.
            name (P ! i) = ''Ball_'' @ str_nat i \<and>
            location (P ! i) = (norm_column xs ! i * sp, norm_column ys ! i * sp, 0)) \<and>
         (\<forall>i. i + 1 < len df \<longrightarrow>
            C ! i = cylinder_obj h (location (P ! i)) (location (P ! (i + 1))) sr
                      (''Stick_'' @ str_nat i) (0.8, 0.8, 0.8, 1)))"
proof -
  let ?res = "create_ball_stick_model h df xc yc sp br sr sc"
  let ?P = "placements (created sc ?res)"
  let ?C = "connectors (created sc ?res)"
  have lx: "length xs = len df" and ly: "length ys = len df"
    using x y by (simp_all add: column_floats_length)
  have r: "fst ?res = Inr ()" by (simp add: model_eq [OF x y])
  have s: "snd ?res = sc @ ?P @ ?C"
    by (simp add: placements_eq [OF x y] connectors_eq [OF x y]) (simp add: model_eq [OF x y])
  have lp: "length ?P = len df" by (simp add: placements_eq [OF x y])
  have lc: "int (length ?C) = max 0 (int (len df) - 1)"
    by (simp add: connectors_eq [OF x y])
  have loc: "location (?P ! i) = (norm_column xs ! i * sp, norm_column ys ! i * sp, 0)"
    if "i < len df" for i
    using that by (simp add: placement_nth [OF x y] ball_of_fields)
  have b: "\<forall>i<len df. name (?P ! i) = ''Ball_'' @ str_nat i \<and>
      location (?P ! i) = (norm_column xs ! i * sp, norm_column ys ! i * sp, 0)"
    by (simp add: placement_nth [OF x y] ball_of_fields)
  have c: "\<forall>i. i + 1 < len df \<longrightarrow>
      ?C ! i = cylinder_obj h (location (?P ! i)) (location (?P ! (i + 1))) sr
                 (''Stick_'' @ str_nat i) (0.8, 0.8, 0.8, 1)"
  proof (intro allI impI)
    fix i assume i: "i + 1 < len df"
    then have i0: "i < len df" by simp
    have p0: "points_of sp xs ys ! i = location (?P ! i)"
      using i0 by (simp add: points_of_nth lx ly loc)
    have p1: "points_of sp xs ys ! (i + 1) = location (?P ! (i + 1))"
      using i loc [of "i + 1"] by (simp add: points_of_nth lx ly)
    show "?C ! i = cylinder_obj h (location (?P ! i)) (location (?P ! (i + 1))) sr
                 (''Stick_'' @ str_nat i) (0.8, 0.8, 0.8, 1)"
      unfolding connector_nth [OF x y i] stick_of_def p0 p1 ..
  qed
  show ?thesis
    unfolding Let_def using r s lp lc b c by blast
qed

theorem one_sphere_per_row_one_stick_per_pair_witness:
  "column_floats example_host (frame_of_samples [(0, 0), (10, 0), (10, 10)]) ''x''
      = Inr [0, 10, 10] \<and>
   column_floats example_host (frame_of_samples [(0, 0), (10, 0), (10, 10)]) ''y''
      = Inr [0, 0, 10] \<and>
   length (placements (created [] (create_ball_stick_model example_host
      (frame_of_samples [(0, 0), (10, 0), (10, 10)]) ''x'' ''y'' 5 0.2 0.05 []))) = 3 \<and>
   length (connectors (created [] (create_ball_stick_model example_host
      (frame_of_samples [(0, 0), (10, 0), (10, 10)]) ''x'' ''y'' 5 0.2 0.05 []))) = 2 \<and>
   name (placements (created [] (create_ball_stick_model example_host
      (frame_of_samples [(0, 0), (10, 0), (10, 10)]) ''x'' ''y'' 5 0.2 0.05 [])) ! 2) = ''Ball_2''"
proof -
  let ?df = "frame_of_samples [(0, 0), (10, 0), (10, 10)]"
  have x: "column_floats example_host ?df ''x'' = Inr [0, 10, 10]"
    and y: "column_floats example_host ?df ''y'' = Inr [0, 0, 10]"
    by (simp_all add: scenario_columns)
  note T = one_sphere_per_row_one_stick_per_pair [OF x y, of 5 "0.2" "0.05" "[]",
      unfolded Let_def scenario_len]
  from T have p: "length (placements (created [] (create_ball_stick_model example_host
      ?df ''x'' ''y'' 5 0.2 0.05 []))) = 3" by blast
  from T have "int (length (connectors (created [] (create_ball_stick_model example_host
      ?df ''x'' ''y'' 5 0.2 0.05 [])))) = max 0 (int 3 - 1)" by blast
  then have c: "length (connectors (created [] (create_ball_stick_model example_host
      ?df ''x'' ''y'' 5 0.2 0.05 []))) = 2" by simp
  from T have "\<forall>i<3. name (placements (created [] (create_ball_stick_model example_host
      ?df ''x'' ''y'' 5 0.2 0.05 [])) ! i) = ''Ball_'' @ str_nat i" by blast
  then have n: "name (placements (created [] (create_ball_stick_model example_host
      ?df ''x'' ''y'' 5 0.2 0.05 [])) ! 2) = ''Ball_2''"
    by (simp add: str_nat.simps digit_char_def)
  show ?thesis using x y p c n by blast
qed


lemma base_color_created:
  "principled_bsdf h \<Longrightarrow> base_color (create_material h c) = Some c"
  by (simp add: create_material_def)



lemma gradient_step:
  "i < j \<Longrightarrow> j < n \<Longrightarrow>
     real i / real n \<le> real j / real n \<and> 1 - real j / real n \<le> 1 - real i / real n"
  by (simp add: divide_right_mono)

text \<open>
  C4: with \<open>N\<close> rows, the material of ball \<open>i\<close> is made from the colour
  \<open>(i/N, 1 - i/N, 0.8, 1)\<close>, which is its base colour where the host's material has the
  Principled BSDF node; and for \<open>i < j\<close> the red channel of ball \<open>i\<close> is at most that of
  ball \<open>j\<close>, the green channel of ball \<open>i\<close> at least that of ball \<open>j\<close>.
\<close>

theorem ball_colour_gradient:
  assumes x: "column_floats h df xc = Inr xs" and y: "column_floats h df yc = Inr ys"
  shows
    "(let P = placements (created sc (create_ball_stick_model h df xc yc sp br sr sc));
          N = len df
      in (\<forall>i<N.
            materials (P ! i) =
              [create_material h (real i / real N, 1 - real i / real N, 0.8, 1)] \<and>
            (principled_bsdf h \<longrightarrow>
               map base_color (materials (P ! i)) =
                 [Some (real i / real N, 1 - real i / real N, 0.8, 1)])) \<and>
         (\<forall>i j ci cj.
            i < j \<and> j < N \<and>
            map base_color (materials (P ! i)) = [Some ci] \<and>
            map base_color (materials (P ! j)) = [Some cj] \<longrightarrow>
              red ci \<le> red cj \<and> green cj \<le> green ci))"
proof -
  let ?P = "placements (created sc (create_ball_stick_model h df xc yc sp br sr sc))"
  let ?col = "\<lambda>i. (real i / real (len df), 1 - real i / real (len df), 0.8, 1 :: real)"
  have m: "materials (?P ! i) = [create_material h (?col i)]" if "i < len df" for i
    using that by (simp add: placement_nth [OF x y] ball_of_fields)
  have a: "\<forall>i<len df. materials (?P ! i) = [create_material h (?col i)] \<and>
      (principled_bsdf h \<longrightarrow> map base_color (materials (?P ! i)) = [Some (?col i)])"
    by (simp add: m base_color_created)
  have b: "red ci \<le> red cj \<and> green cj \<le> green ci"
    if ij: "i < j" "j < len df"
      and ci: "map base_color (materials (?P ! i)) = [Some ci]"
      and cj: "map base_color (materials (?P ! j)) = [Some cj]" for i j ci cj
  proof -
    have i: "i < len df" using ij by simp
    have bs: "principled_bsdf h"
      using ci by (cases "principled_bsdf h") (simp_all add: m [OF i] create_material_def)
    have "ci = ?col i" using ci bs by (simp add: m [OF i] base_color_created)
    moreover have "cj = ?col j" using cj bs by (simp add: m [OF ij(2)] base_color_created)
    ultimately show ?thesis using gradient_step [OF ij] by simp
  qed
  show ?thesis
    unfolding Let_def
  proof (intro conjI)
    show "\<forall>i<len df. materials (?P ! i) = [create_material h (?col i)] \<and>
        (principled_bsdf h \<longrightarrow> map base_color (materials (?P ! i)) = [Some (?col i)])"
      by (rule a)
    show "\<forall>i j ci cj.
        i < j \<and> j < len df \<and>
        map base_color (materials (?P ! i)) = [Some ci] \<and>
        map base_color (materials (?P ! j)) = [Some cj] \<longrightarrow>
          red ci \<le> red cj \<and> green cj \<le> green ci"
    proof (intro allI impI, elim conjE)
      fix i j ci cj
      assume "i < j" and "j < len df"
        and "map base_color (materials (?P ! i)) = [Some ci]"
        and "map base_color (materials (?P ! j)) = [Some cj]"
      then show "red ci \<le> red cj \<and> green cj \<le> green ci" by (rule b)
    qed
  qed
qed

theorem ball_colour_gradient_witness:
  "column_floats example_host (frame_of_samples [(0, 0), (10, 0), (10, 10)]) ''x''
      = Inr [0, 10, 10] \<and>
   column_floats example_host (frame_of_samples [(0, 0), (10, 0), (10, 10)]) ''y''
      = Inr [0, 0, 10] \<and>
   principled_bsdf example_host \<and>
   map base_color (materials (placements (created [] (create_ball_stick_model example_host
      (frame_of_samples [(0, 0), (10, 0), (10, 10)]) ''x'' ''y'' 5 0.2 0.05 [])) ! 1))
     = [Some (1 / 3, 2 / 3, 0.8, 1)] \<and>
   map base_color (materials (placements (created [] (create_ball_stick_model example_host
      (frame_of_samples [(0, 0), (10, 0), (10, 10)]) ''x'' ''y'' 5 0.2 0.05 [])) ! 2))
     = [Some (2 / 3, 1 / 3, 0.8, 1)] \<and>
   red (1 / 3, 2 / 3, 0.8, 1 :: real) \<le> red (2 / 3, 1 / 3, 0.8, 1 :: real) \<and>
   green (2 / 3, 1 / 3, 0.8, 1 :: real) \<le> green (1 / 3, 2 / 3, 0.8, 1 :: real)"
proof -
  let ?df = "frame_of_samples [(0, 0), (10, 0), (10, 10)]"
  let ?P = "placements (created [] (create_ball_stick_model example_host ?df
      ''x'' ''y'' 5 0.2 0.05 []))"
  have x: "column_floats example_host ?df ''x'' = Inr [0, 10, 10]"
    and y: "column_floats example_host ?df ''y'' = Inr [0, 0, 10]"
    by (simp_all add: scenario_columns)
  have b: "principled_bsdf example_host" by (simp add: example_host_def)
  note T = ball_colour_gradient [OF x y, of "[]" 5 "0.2" "0.05", unfolded Let_def scenario_len]
  from T b have A: "\<forall>i<3. map base_color (materials (?P ! i)) =
      [Some (real i / real 3, 1 - real i / real 3, 0.8, 1)]" by blast
  have c1: "map base_color (materials (?P ! 1)) = [Some (1 / 3, 2 / 3, 0.8, 1)]"
    using A [rule_format, of 1] by simp
  have c2: "map base_color (materials (?P ! 2)) = [Some (2 / 3, 1 / 3, 0.8, 1)]"
    using A [rule_format, of 2] by simp
  note M = T [THEN conjunct2, rule_format, of 1 2 "(1 / 3, 2 / 3, 0.8, 1)" "(2 / 3, 1 / 3, 0.8, 1)"]
  have g: "red (1 / 3, 2 / 3, 0.8, 1 :: real) \<le> red (2 / 3, 1 / 3, 0.8, 1 :: real) \<and>
      green (2 / 3, 1 / 3, 0.8, 1 :: real) \<le> green (1 / 3, 2 / 3, 0.8, 1 :: real)"
    using M c1 c2 by simp
  show ?thesis
    by (intro conjI x y b c1 c2 g [THEN conjunct1] g [THEN conjunct2])
qed

lemma all_equal_const:
  assumes "\<forall>v\<in>set xs. \<forall>w\<in>set xs. v = w"
  shows "norm_column xs = xs"
proof (cases "xs = []")
  case True
  then show ?thesis by (simp add: norm_column_def)
next
  case False
  then have "Max (set xs) \<in> set xs" and "Min (set xs) \<in> set xs" by simp_all
  with assms have "Max (set xs) = Min (set xs)" by blast
  with False show ?thesis by (rule norm_column_const)
qed

lemma single_row_columns:
  "column_floats h (frame_of_samples [(3, 4)]) ''x'' = Inr [3]"
  "column_floats h (frame_of_samples [(3, 4)]) ''y'' = Inr [4]"
  by (simp_all add: column_floats_def getitem_def frame_of_samples_def)

lemma single_row_len: "len (frame_of_samples [(3, 4)]) = 1"
  by (simp add: len_def frame_of_samples_def)

text \<open>
  C5: a column whose values are all equal is passed through unscaled, so the coordinate
  of every placement is the raw value times the spacing, and likewise for the other
  column; the single row (3, 4) gives no failure, one placement at
  \<open>(3 * spacing, 4 * spacing, 0)\<close> and no connector.
\<close>

theorem constant_column_passes_raw_values:
  assumes x: "column_floats h df xc = Inr xs" and y: "column_floats h df yc = Inr ys"
  shows
    "(let P = placements (created sc (create_ball_stick_model h df xc yc sp br sr sc)) in
        ((\<forall>v\<in>set xs. \<forall>w\<in>set xs. v = w) \<longrightarrow>
           norm_column xs = xs \<and> (\<forall>i<len df. vx (location (P ! i)) = xs ! i * sp)) \<and>
        ((\<forall>v\<in>set ys. \<forall>w\<in>set ys. v = w) \<longrightarrow>
           norm_column ys = ys \<and> (\<forall>i<len df. vy (location (P ! i)) = ys ! i * sp))) \<and>
     (let res = create_ball_stick_model h (frame_of_samples [(3, 4)]) ''x'' ''y'' sp br sr sc in
        fst res = Inr () \<and>
        map location (placements (created sc res)) = [(3 * sp, 4 * sp, 0)] \<and>
        connectors (created sc res) = [] \<and>
        length (created sc res) = 1)"
proof -
  let ?P = "placements (created sc (create_ball_stick_model h df xc yc sp br sr sc))"
  have loc: "location (?P ! i) = (norm_column xs ! i * sp, norm_column ys ! i * sp, 0)"
    if "i < len df" for i
    using that by (simp add: placement_nth [OF x y] ball_of_fields)
  have a: "norm_column xs = xs \<and> (\<forall>i<len df. vx (location (?P ! i)) = xs ! i * sp)"
    if "\<forall>v\<in>set xs. \<forall>w\<in>set xs. v = w"
    using all_equal_const [OF that] by (simp add: loc)
  have b: "norm_column ys = ys \<and> (\<forall>i<len df. vy (location (?P ! i)) = ys ! i * sp)"
    if "\<forall>v\<in>set ys. \<forall>w\<in>set ys. v = w"
    using all_equal_const [OF that] by (simp add: loc)
  let ?one = "create_ball_stick_model h (frame_of_samples [(3, 4)]) ''x'' ''y'' sp br sr sc"
  have n3: "norm_column [3] = [3]" and n4: "norm_column [4] = [4]"
    by (simp_all add: norm_column_def)
  have c1: "fst ?one = Inr ()"
    by (simp add: model_eq [OF single_row_columns])
  have c2: "map location (placements (created sc ?one)) = [(3 * sp, 4 * sp, 0)]"
    by (simp add: placements_eq [OF single_row_columns] single_row_len n3 n4 ball_of_fields)
  have c3: "connectors (created sc ?one) = []"
    by (simp add: connectors_eq [OF single_row_columns] single_row_len)
  have c4: "length (created sc ?one) = 1"
    by (simp add: created_eq [OF single_row_columns] single_row_len)
  show ?thesis
    unfolding Let_def using a b c1 c2 c3 c4 by blast
qed

theorem constant_column_passes_raw_values_witness:
  "column_floats example_host (frame_of_samples [(7, 1), (7, 2)]) ''x'' = Inr [7, 7] \<and>
   column_floats example_host (frame_of_samples [(7, 1), (7, 2)]) ''y'' = Inr [1, 2] \<and>
   norm_column [7, 7] = [7, 7] \<and>
   vx (location (placements (created [] (create_ball_stick_model example_host
      (frame_of_samples [(7, 1), (7, 2)]) ''x'' ''y'' 5 0.2 0.05 [])) ! 1)) = 35"
proof -
  let ?df = "frame_of_samples [(7, 1), (7, 2)]"
  let ?P = "placements (created [] (create_ball_stick_model example_host ?df
      ''x'' ''y'' 5 0.2 0.05 []))"
  have x: "column_floats example_host ?df ''x'' = Inr [7, 7]"
    and y: "column_floats example_host ?df ''y'' = Inr [1, 2]"
    by (simp_all add: column_floats_def getitem_def frame_of_samples_def)
  have l: "len ?df = 2" by (simp add: len_def frame_of_samples_def)
  have c: "\<forall>v\<in>set [7, 7 :: real]. \<forall>w\<in>set [7, 7 :: real]. v = w" by simp
  note T = constant_column_passes_raw_values [OF x y, of "[]" 5 "0.2" "0.05",
      unfolded Let_def l]
  from T c have A: "norm_column [7, 7] = [7, 7] \<and>
      (\<forall>i<2. vx (location (?P ! i)) = [7, 7] ! i * 5)" by blast
  then have n: "norm_column [7, 7] = [7, 7]" ..
  have v: "vx (location (?P ! 1)) = 35"
    using A [THEN conjunct2, rule_format, of 1] by simp
  show ?thesis using x y n v by blast
qed

lemma astype_float_result:
  "(\<exists>vs. astype_float h cs = Inr vs \<and> (\<forall>s. Text s \<in> set cs \<longrightarrow> float_of_text h s \<noteq> None)) \<or>
   (\<exists>s. astype_float h cs = Inl (ValueError s) \<and> Text s \<in> set cs \<and> float_of_text h s = None)"
proof (induction cs)
  case Nil
  then show ?case by simp
next
  case (Cons c cs)
  show ?case
  proof (cases c)
    case (Num v)
    with Cons.IH show ?thesis by auto
  next
    case (Text t)
    show ?thesis
    proof (cases "float_of_text h t")
      case None
      with Text show ?thesis by auto
    next
      case (Some v)
      with Text Cons.IH show ?thesis by auto
    qed
  qed
qed


lemma column_floats_error:
  "column_floats h df c = Inl e \<Longrightarrow> e = KeyError c \<or> (\<exists>s. e = ValueError s)"
  using astype_float_result [of h "map (\<lambda>r. r c) (rows df)"]
  by (auto simp: column_floats_def getitem_def split: if_splits)

lemma created_unchanged: "created sc (a, sc) = []"
  by (simp add: created_def)




text \<open>
  C7: when the frame read lacks one of the two configured columns, the operator reports
  the error \<open>Column 'x' or 'y' not found in CSV.\<close> with both configured names, returns
  \<open>CANCELLED\<close> and leaves the scene as it was: no placement and no connector.
\<close>

theorem missing_column_is_reported:
  assumes csv: "read_csv h (filepath p) = Inr df"
    and missing: "x_column p \<notin> set (columns df) \<or> y_column p \<notin> set (columns df)"
  shows
    "visualize_execute h p sc =
       ((CANCELLED,
         [(ERROR, ''Column '' @ [CHR 0x27] @ x_column p @ [CHR 0x27] @ '' or ''
                    @ [CHR 0x27] @ y_column p @ [CHR 0x27] @ '' not found in CSV.'')]), sc) \<and>
     placements (created sc (visualize_execute h p sc)) = [] \<and>
     connectors (created sc (visualize_execute h p sc)) = []"
proof -
  have v: "visualize_execute h p sc =
       ((CANCELLED,
         [(ERROR, ''Column '' @ [CHR 0x27] @ x_column p @ [CHR 0x27] @ '' or ''
                    @ [CHR 0x27] @ y_column p @ [CHR 0x27] @ '' not found in CSV.'')]), sc)"
    using missing by (simp add: visualize_execute_def csv)
  show ?thesis
    unfolding v by (simp add: created_unchanged placements_def connectors_def)
qed

theorem missing_column_is_reported_witness:
  "read_csv example_host (filepath ((example_props ''data.csv'')\<lparr>y_column := ''height''\<rparr>)) =
     Inr (frame_of_samples [(0, 0), (10, 0), (10, 10)]) \<and>
   y_column ((example_props ''data.csv'')\<lparr>y_column := ''height''\<rparr>)
     \<notin> set (columns (frame_of_samples [(0, 0), (10, 0), (10, 10)])) \<and>
   visualize_execute example_host ((example_props ''data.csv'')\<lparr>y_column := ''height''\<rparr>) [] =
     ((CANCELLED, [(ERROR, ''Column '' @ [CHR 0x27] @ ''x'' @ [CHR 0x27] @ '' or ''
                    @ [CHR 0x27] @ ''height'' @ [CHR 0x27] @ '' not found in CSV.'')]), [])"
proof -
  let ?df = "frame_of_samples [(0, 0), (10, 0), (10, 10)]"
  let ?p = "(example_props ''data.csv'')\<lparr>y_column := ''height''\<rparr>"
  have csv: "read_csv example_host (filepath ?p) = Inr ?df"
    by (simp add: example_host_def example_props_def)
  have my: "y_column ?p \<notin> set (columns ?df)"
    by (simp add: frame_of_samples_def)
  then have missing: "x_column ?p \<notin> set (columns ?df) \<or> y_column ?p \<notin> set (columns ?df)" ..
  have xy: "x_column ?p = ''x''" "y_column ?p = ''height''"
    by (simp_all add: example_props_def)
  note T = missing_column_is_reported [OF csv missing, of "[]", THEN conjunct1, unfolded xy]
  show ?thesis by (intro conjI csv my T)
qed

text \<open>
  C8: when reading the file raises, the load operator catches the exception: it stores
  the message \<open>Error reading CSV: \<close> followed by the exception's text in
  \<open>error_message\<close>, leaves \<open>file_loaded\<close> false and returns its status to the host as
  after a successful read; no other property changes.
\<close>

theorem load_failure_is_caught:
  assumes "read_csv h path = Inl e"
  shows
    "file_loaded (snd (load_execute h path p)) = False \<and>
     error_message (snd (load_execute h path p)) = ''Error reading CSV: '' @ exn_str e \<and>
     load_execute h path p =
       (FINISHED, p\<lparr>file_loaded := False,
                     error_message := ''Error reading CSV: '' @ exn_str e\<rparr>)"
  using assms by (simp add: load_execute_def)

theorem load_failure_is_caught_witness:
  "read_csv example_host ''missing.csv'' = Inl (ReadError ''No such file or directory'') \<and>
   file_loaded (snd (load_execute example_host ''missing.csv'' (example_props ''data.csv'')))
     = False \<and>
   error_message (snd (load_execute example_host ''missing.csv'' (example_props ''data.csv'')))
     = ''Error reading CSV: No such file or directory''"
proof -
  have r: "read_csv example_host ''missing.csv'' = Inl (ReadError ''No such file or directory'')"
    by (simp add: example_host_def)
  note T = load_failure_is_caught [OF r, of "example_props ''data.csv''"]
  have f: "file_loaded (snd (load_execute example_host ''missing.csv''
      (example_props ''data.csv''))) = False"
    using T by (rule conjunct1)
  have m: "error_message (snd (load_execute example_host ''missing.csv''
      (example_props ''data.csv''))) = ''Error reading CSV: No such file or directory''"
    using T [THEN conjunct2, THEN conjunct1] by simp
  show ?thesis by (intro conjI r f m)
qed

text \<open>
  C9: the load operator returns \<open>FINISHED\<close> whether or not the file could be read. A
  failure shows only in the properties: \<open>file_loaded\<close> is false, \<open>error_message\<close> is
  not empty, and \<open>filepath\<close> keeps its previous value; \<open>filepath\<close> is assigned when the
  read succeeds.
\<close>

theorem load_always_returns_finished:
  "fst (load_execute h path p) = FINISHED \<and>
   (\<forall>e. read_csv h path = Inl e \<longrightarrow>
      file_loaded (snd (load_execute h path p)) = False \<and>
      error_message (snd (load_execute h path p)) \<noteq> [] \<and>
      filepath (snd (load_execute h path p)) = filepath p) \<and>
   (\<forall>df. read_csv h path = Inr df \<longrightarrow>
      file_loaded (snd (load_execute h path p)) = True \<and>
      error_message (snd (load_execute h path p)) = [] \<and>
      filepath (snd (load_execute h path p)) = path)"
  by (cases "read_csv h path") (simp_all add: load_execute_def)

theorem load_always_returns_finished_witness:
  "read_csv example_host ''missing.csv'' = Inl (ReadError ''No such file or directory'') \<and>
   fst (load_execute example_host ''missing.csv'' (example_props ''data.csv'')) = FINISHED \<and>
   file_loaded (snd (load_execute example_host ''missing.csv'' (example_props ''data.csv'')))
     = False \<and>
   error_message (snd (load_execute example_host ''missing.csv'' (example_props ''data.csv'')))
     \<noteq> [] \<and>
   filepath (snd (load_execute example_host ''missing.csv'' (example_props ''data.csv'')))
     = ''data.csv'' \<and>
   read_csv example_host ''data.csv'' = Inr (frame_of_samples [(0, 0), (10, 0), (10, 10)]) \<and>
   filepath (snd (load_execute example_host ''data.csv'' (example_props ''old.csv'')))
     = ''data.csv''"
proof -
  let ?p = "example_props ''data.csv''"
  have r: "read_csv example_host ''missing.csv'' = Inl (ReadError ''No such file or directory'')"
    by (simp add: example_host_def)
  have r': "read_csv example_host ''data.csv'' = Inr (frame_of_samples [(0, 0), (10, 0), (10, 10)])"
    by (simp add: example_host_def)
  note T = load_always_returns_finished [of example_host "''missing.csv''" ?p]
  note F = T [THEN conjunct2, THEN conjunct1, rule_format, OF r]
  note S = load_always_returns_finished [of example_host "''data.csv''" "example_props ''old.csv''",
      THEN conjunct2, THEN conjunct2, rule_format, OF r']
  have fp: "filepath (snd (load_execute example_host ''missing.csv'' ?p)) = ''data.csv''"
    using F by (simp add: example_props_def)
  show ?thesis
    by (intro conjI r r' T [THEN conjunct1] F [THEN conjunct1]
        F [THEN conjunct2, THEN conjunct1] fp S [THEN conjunct2, THEN conjunct2])
qed

lemma ball_loop_zero_division:
  "(fst (ball_loop h n sp r i ps points sc) = Inl ZeroDivisionError) = (n = 0 \<and> ps \<noteq> [])"
proof (cases "n = 0")
  case True
  then show ?thesis
    by (cases ps) (auto simp: ball_color_def)
next
  case False
  then have "0 < n" by simp
  then show ?thesis by (simp add: ball_loop_eq)
qed

lemma channel_bounds:
  assumes "i < n"
  shows "0 \<le> real i / real n" and "real i / real n < 1"
    and "0 < 1 - real i / real n" and "1 - real i / real n \<le> 1"
  using assms by simp_all

text \<open>
  C10: the call never raises \<open>ZeroDivisionError\<close>. The first loop would raise it exactly
  for a zero divisor and at least one row to visit, and it visits \<open>len(df)\<close> rows: for an
  empty frame its body does not run and nothing is added. The material of every ball
  added is made from a colour whose red channel is in [0, 1) and whose green channel is
  in (0, 1].
\<close>

theorem no_division_by_zero:
  "(fst (ball_loop h n sp r k ps points sc) = Inl ZeroDivisionError) = (n = 0 \<and> ps \<noteq> []) \<and>
   (let res = create_ball_stick_model h df xc yc sp br sr sc;
        P = placements (created sc res)
    in fst res \<noteq> Inl ZeroDivisionError \<and>
       (len df = 0 \<longrightarrow> snd res = sc) \<and>
       (\<forall>i<length P.
          1 \<le> len df \<and>
          (let c = (real i / real (len df), 1 - real i / real (len df), 0.8, 1)
           in materials (P ! i) = [create_material h c] \<and>
              0 \<le> red c \<and> red c < 1 \<and> 0 < green c \<and> green c \<le> 1)))"
proof -
  let ?res = "create_ball_stick_model h df xc yc sp br sr sc"
  let ?P = "placements (created sc ?res)"
  let ?Q = "\<lambda>i. 1 \<le> len df \<and>
          (let c = (real i / real (len df), 1 - real i / real (len df), 0.8, 1)
           in materials (?P ! i) = [create_material h c] \<and>
              0 \<le> red c \<and> red c < 1 \<and> 0 < green c \<and> green c \<le> 1)"
  have main: "fst ?res \<noteq> Inl ZeroDivisionError \<and> (len df = 0 \<longrightarrow> snd ?res = sc) \<and>
      (\<forall>i<length ?P. ?Q i)"
  proof (cases "column_floats h df xc")
    case (Inl e)
    then have res: "?res = (Inl e, sc)" by (simp add: create_ball_stick_model_def)
    have "e \<noteq> ZeroDivisionError" using column_floats_error [OF Inl] by auto
    then show ?thesis
      by (simp add: res created_unchanged placements_def)
  next
    case x: (Inr xs)
    show ?thesis
    proof (cases "column_floats h df yc")
      case (Inl e)
      then have res: "?res = (Inl e, sc)" by (simp add: create_ball_stick_model_def x)
      have "e \<noteq> ZeroDivisionError" using column_floats_error [OF Inl] by auto
      then show ?thesis
        by (simp add: res created_unchanged placements_def)
    next
      case y: (Inr ys)
      have a: "fst ?res \<noteq> Inl ZeroDivisionError" by (simp add: model_eq [OF x y])
      have b: "len df = 0 \<longrightarrow> snd ?res = sc" by (simp add: model_eq [OF x y])
      have lp: "length ?P = len df" by (simp add: placements_eq [OF x y])
      have c: "\<forall>i<length ?P. ?Q i"
      proof (intro allI impI)
        fix i assume "i < length ?P"
        then have i: "i < len df" by (simp add: lp)
        have m: "materials (?P ! i) =
            [create_material h (real i / real (len df), 1 - real i / real (len df), 0.8, 1)]"
          by (simp add: placement_nth [OF x y i] ball_of_fields)
        show "?Q i"
          using i channel_bounds [OF i] by (simp add: m Let_def)
      qed
      show ?thesis by (intro conjI a b c)
    qed
  qed
  note main' = main [unfolded Let_def]
  show ?thesis
    unfolding Let_def by (intro conjI ball_loop_zero_division main' [THEN conjunct1]
        main' [THEN conjunct2, THEN conjunct1] main' [THEN conjunct2, THEN conjunct2])
qed

theorem no_division_by_zero_witness:
  "fst (create_ball_stick_model example_host (frame_of_samples []) ''x'' ''y'' 5 0.2 0.05 [])
     \<noteq> Inl ZeroDivisionError \<and>
   len (frame_of_samples []) = 0 \<and>
   snd (create_ball_stick_model example_host (frame_of_samples []) ''x'' ''y'' 5 0.2 0.05 []) = [] \<and>
   1 < length (placements (created [] (create_ball_stick_model example_host
      (frame_of_samples [(0, 0), (10, 0), (10, 10)]) ''x'' ''y'' 5 0.2 0.05 []))) \<and>
   materials (placements (created [] (create_ball_stick_model example_host
      (frame_of_samples [(0, 0), (10, 0), (10, 10)]) ''x'' ''y'' 5 0.2 0.05 [])) ! 1)
        = [create_material example_host (1 / 3, 2 / 3, 0.8, 1)] \<and>
   red (1 / 3, 2 / 3, 0.8, 1 :: real) < 1 \<and> 0 < green (1 / 3, 2 / 3, 0.8, 1 :: real)"
proof -
  let ?df = "frame_of_samples [(0, 0), (10, 0), (10, 10)]"
  let ?P = "placements (created [] (create_ball_stick_model example_host ?df
      ''x'' ''y'' 5 0.2 0.05 []))"
  note E = no_division_by_zero [where h = example_host and df = "frame_of_samples []"
      and xc = "''x''" and yc = "''y''" and sp = 5 and br = "0.2" and sr = "0.05" and sc = "[]"
      and n = 0 and ps = "[]" and r = 0 and k = 0 and points = "[]",
      THEN conjunct2, unfolded Let_def]
  have l0: "len (frame_of_samples []) = 0" by (simp add: len_def frame_of_samples_def)
  have e1: "fst (create_ball_stick_model example_host (frame_of_samples []) ''x'' ''y'' 5 0.2 0.05 [])
     \<noteq> Inl ZeroDivisionError"
    using E by (rule conjunct1)
  have e2: "snd (create_ball_stick_model example_host (frame_of_samples []) ''x'' ''y'' 5 0.2 0.05 [])
     = []"
    using E [THEN conjunct2, THEN conjunct1] l0 by (rule mp)
  note T = no_division_by_zero [where h = example_host and df = ?df
      and xc = "''x''" and yc = "''y''" and sp = 5 and br = "0.2" and sr = "0.05" and sc = "[]"
      and n = 0 and ps = "[]" and r = 0 and k = 0 and points = "[]",
      THEN conjunct2, unfolded Let_def scenario_len, THEN conjunct2, THEN conjunct2]
  have lp: "1 < length ?P"
    by (simp add: placements_eq [OF scenario_columns] scenario_len)
  have c: "materials (?P ! 1) = [create_material example_host (1 / 3, 2 / 3, 0.8, 1)] \<and>
      red (1 / 3, 2 / 3, 0.8, 1 :: real) < 1 \<and> 0 < green (1 / 3, 2 / 3, 0.8, 1 :: real)"
    using T [rule_format, OF lp, THEN conjunct2] by simp
  show ?thesis
    by (intro conjI e1 l0 e2 lp c [THEN conjunct1] c [THEN conjunct2, THEN conjunct1]
        c [THEN conjunct2, THEN conjunct2])
qed

subsection \<open>The scenario, run\<close>

text \<open>
  The operator on \<open>data.csv\<close>, evaluated from the definitions alone: three spheres, then
  two cylinders of depth 5.
\<close>

lemma sqrt_25: "sqrt 25 = 5"
  by (rule real_sqrt_unique) simp_all

lemma scenario_run:
  "visualize_execute example_host (example_props ''data.csv'') [] =
  ((FINISHED, [(INFO, ''Graph created.'')]),
   [\<lparr>mesh = UVSphere 0.2, location = (0, 0, 0), name = ''Ball_0'',
     materials = [\<lparr>mat_name = ''Mat'', use_nodes = True, base_color = Some (0, 1, 0.8, 1)\<rparr>],
     rotation_mode = ''XYZ'', rotation_quaternion = Identity\<rparr>,
    \<lparr>mesh = UVSphere 0.2, location = (5, 0, 0), name = ''Ball_1'',
     materials = [\<lparr>mat_name = ''Mat'', use_nodes = True, base_color = Some (1/3, 2/3, 0.8, 1)\<rparr>],
     rotation_mode = ''XYZ'', rotation_quaternion = Identity\<rparr>,
    \<lparr>mesh = UVSphere 0.2, location = (5, 5, 0), name = ''Ball_2'',
     materials = [\<lparr>mat_name = ''Mat'', use_nodes = True, base_color = Some (2/3, 1/3, 0.8, 1)\<rparr>],
     rotation_mode = ''XYZ'', rotation_quaternion = Identity\<rparr>,
    \<lparr>mesh = Cylinder 0.05 5, location = (5/2, 0, 0), name = ''Stick_0'',
     materials = [\<lparr>mat_name = ''Mat'', use_nodes = True, base_color = Some (0.8, 0.8, 0.8, 1)\<rparr>],
     rotation_mode = ''QUATERNION'', rotation_quaternion = ToTrackQuat (5, 0, 0) ''Z'' ''Y''\<rparr>,
    \<lparr>mesh = Cylinder 0.05 5, location = (5, 5/2, 0), name = ''Stick_1'',
     materials = [\<lparr>mat_name = ''Mat'', use_nodes = True, base_color = Some (0.8, 0.8, 0.8, 1)\<rparr>],
     rotation_mode = ''QUATERNION'', rotation_quaternion = ToTrackQuat (0, 5, 0) ''Z'' ''Y''\<rparr>])"
  by (simp add: visualize_execute_def example_props_def example_host_def
      create_ball_stick_model_def column_floats_def getitem_def frame_of_samples_def
      norm_column_def len_def ball_color_def add_sphere_def sphere_obj_def
      primitive_uv_sphere_add_def create_material_def stick_loop_def add_cylinder_between_def
      cylinder_obj_def primitive_cylinder_add_def str_nat.simps digit_char_def Let_def
      sqrt_25 upt_rec)

end
